theory Spec2Isabelle
  imports Complex_Main
begin

section \<open>The values of the size form (size-form.tsx)\<close>

text \<open>\<open>SizeFormValues\<close>, the type inferred from \<open>formSchema\<close>: two strings.\<close>

record SizeFormValues =
  name :: string
  "value" :: string

section \<open>The relational schema (prisma/schema.prisma)\<close>

text \<open>
  Each Prisma model is a record with the scalar columns of the model; the relation fields
  (\<open>billboards\<close>, \<open>categories\<close>, \<open>sizes\<close>, \<open>store\<close>, \<open>billboard\<close>) are virtual and hold no
  data of their own. The column \<open>id\<close> is written \<open>id'\<close>. A \<open>DateTime\<close> is a number of
  milliseconds. A \<open>string\<close> is a list of code units, one \<open>char\<close> each, which covers the
  code units below 256: every character the forms' alphabets mention is among them, and
  the route handlers look at a string only to compare it and to test it for emptiness.
\<close>

type_synonym DateTime = nat

record Store =
  id' :: string
  name :: string
  userId :: string
  createdAt :: DateTime
  updatedAt :: DateTime

record Billboard =
  id' :: string
  storeId :: string
  label :: string
  imageUrl :: string
  createdAt :: DateTime
  updatedAt :: DateTime

record Category =
  id' :: string
  storeId :: string
  billboardId :: string
  name :: string
  createdAt :: DateTime
  updatedAt :: DateTime

record Size =
  id' :: string
  storeId :: string
  name :: string
  "value" :: string
  createdAt :: DateTime
  updatedAt :: DateTime

text \<open>The database: one table per model, the rows in insertion order.\<close>

record database =
  stores :: "Store list"
  billboards :: "Billboard list"
  categories :: "Category list"
  sizes :: "Size list"

section \<open>Requests and responses\<close>

text \<open>
  A parsed JSON value, as \<open>req.json()\<close> resolves to. An object is the list of its
  properties; where a key is listed twice the first entry is the object's property. A
  property that an object does not have reads as \<open>undefined\<close>, which is \<open>None\<close> of
  \<open>json option\<close>. Of a number only its being zero matters to the handlers.
\<close>

datatype json =
    JNull
  | JBool bool
  | JNumber rat
  | JString string
  | JArray "json list"
  | JObject "(string \<times> json) list"

text \<open>JavaScript truthiness: \<open>!x\<close> is \<open>\<not> truthy x\<close>.\<close>

fun truthy :: "json option \<Rightarrow> bool" where
  "truthy None = False"
| "truthy (Some JNull) = False"
| "truthy (Some (JBool b)) = b"
| "truthy (Some (JNumber n)) = (n \<noteq> 0)"
| "truthy (Some (JString s)) = (s \<noteq> [])"
| "truthy (Some (JArray xs)) = True"
| "truthy (Some (JObject kvs)) = True"

text \<open>
  Reading the property \<open>k\<close> of a parsed value, for the keys \<open>name\<close> and \<open>value\<close> the handler
  reads: an object yields its own property, every other value has neither property.
\<close>

fun property :: "json \<Rightarrow> string \<Rightarrow> json option" where
  "property (JObject kvs) k = map_of kvs k"
| "property j k = None"

text \<open>
  What a route handler sees of a request: the user the identity provider reports
  (\<open>auth().userId\<close>, \<open>None\<close> for \<open>null\<close>), the parsed body (\<open>None\<close> when \<open>req.json()\<close> rejects
  because the body is not JSON) and the path parameter \<open>params.storeId\<close>.
\<close>

record request =
  auth_userId :: "string option"
  req_json :: "json option"
  params_storeId :: string

datatype body = Text string | SizeJson Size | SizeListJson "Size list"

record response =
  content :: body
  status :: nat

definition NextResponse :: "string \<Rightarrow> nat \<Rightarrow> response" where
  "NextResponse text code = \<lparr>content = Text text, status = code\<rparr>"

definition NextResponse_json :: "body \<Rightarrow> response" where
  "NextResponse_json b = \<lparr>content = b, status = 200\<rparr>"

section \<open>The persistence gateway (the Prisma client calls of the handlers)\<close>

text \<open>
  What the schema's defaults supply when a row is created: the identifier of
  \<open>@default(uuid())\<close> and the current time, one clock reading per call, for
  \<open>@default(now())\<close> and \<open>@updatedAt\<close>.
\<close>

record prisma_env =
  uuid :: string
  now :: DateTime

datatype prisma_error = ValidationError | UniqueConstraintFailed

text \<open>\<open>prismadb.store.findFirst({ where: { id, userId } })\<close>\<close>

definition store_findFirst :: "database \<Rightarrow> string \<Rightarrow> string \<Rightarrow> Store option" where
  "store_findFirst db sid uid =
     find (\<lambda>s. Store.id' s = sid \<and> Store.userId s = uid) (stores db)"

text \<open>
  \<open>prismadb.size.create({ data: { name, value, storeId } })\<close>. The columns \<open>name\<close> and
  \<open>value\<close> are \<open>String\<close>: the client throws on any other value. The column \<open>id\<close> is the
  primary key (\<open>@id\<close>): a row whose identifier is taken is not inserted. With
  \<open>relationMode = "prisma"\<close> no foreign key is checked on insertion. Failures of the
  database server itself (a lost connection, a column too narrow for the text) are outside
  the model.
\<close>

definition size_create ::
  "database \<Rightarrow> prisma_env \<Rightarrow> json option \<Rightarrow> json option \<Rightarrow> string
     \<Rightarrow> prisma_error + (Size \<times> database)" where
  "size_create db env name_arg value_arg sid =
     (case name_arg of
        Some (JString n) \<Rightarrow>
          (case value_arg of
             Some (JString v) \<Rightarrow>
               if uuid env \<in> set (map Size.id' (sizes db)) then Inl UniqueConstraintFailed
               else
                 let row = \<lparr>id' = uuid env, storeId = sid, name = n, value = v,
                            createdAt = now env, updatedAt = now env\<rparr>
                 in Inr (row, db\<lparr>sizes := sizes db @ [row]\<rparr>)
           | _ \<Rightarrow> Inl ValidationError)
      | _ \<Rightarrow> Inl ValidationError)"

text \<open>\<open>prismadb.size.findMany({ where: { storeId } })\<close>\<close>

definition size_findMany :: "database \<Rightarrow> string \<Rightarrow> Size list" where
  "size_findMany db sid = filter (\<lambda>r. storeId r = sid) (sizes db)"

section \<open>The route handlers of \<open>/api/[storeId]/sizes\<close>\<close>

text \<open>
  \<open>POST\<close>: the whole body is inside \<open>try\<close>, and every exception ends in the response
  \<open>500 Internal error\<close>. The body is read and destructured before the first check:
  \<open>req.json()\<close> rejects on a body that is not JSON, and destructuring \<open>null\<close> throws.
\<close>

definition POST :: "database \<Rightarrow> prisma_env \<Rightarrow> request \<Rightarrow> response \<times> database" where
  "POST db env req =
     (case req_json req of
        None \<Rightarrow> (NextResponse ''Internal error'' 500, db)
      | Some body \<Rightarrow>
          if body = JNull then (NextResponse ''Internal error'' 500, db)
          else
            let name_arg = property body ''name'';
                value_arg = property body ''value''
            in
              (case auth_userId req of
                 None \<Rightarrow> (NextResponse ''Unauthenticated'' 401, db)
               | Some uid \<Rightarrow>
                   if uid = [] then (NextResponse ''Unauthenticated'' 401, db)
                   else if \<not> truthy name_arg then (NextResponse ''name is required!'' 400, db)
                   else if \<not> truthy value_arg then (NextResponse ''value is required!'' 400, db)
                   else if params_storeId req = [] then
                     (NextResponse ''storeId is required!'' 400, db)
                   else
                     (case store_findFirst db (params_storeId req) uid of
                        None \<Rightarrow> (NextResponse ''Unauthorized'' 403, db)
                      | Some storeByUserId \<Rightarrow>
                          (case size_create db env name_arg value_arg (params_storeId req) of
                             Inl e \<Rightarrow> (NextResponse ''Internal error'' 500, db)
                           | Inr (size', db') \<Rightarrow> (NextResponse_json (SizeJson size'), db')))))"

text \<open>\<open>GET\<close> calls neither \<open>auth()\<close> nor the store table, and writes nothing.\<close>

definition GET :: "database \<Rightarrow> request \<Rightarrow> response" where
  "GET db req =
     (if params_storeId req = [] then NextResponse ''storeId is required!'' 400
      else NextResponse_json (SizeListJson (size_findMany db (params_storeId req))))"

section \<open>The size form: \<open>formSchema\<close> and submission\<close>

text \<open>
  The issues a zod string schema raises: \<open>too_small\<close> for \<open>min\<close>, \<open>too_big\<close> for \<open>max\<close>,
  \<open>invalid_string\<close> for \<open>regex\<close> (shown with the message that the text may hold letters and
  digits only) and \<open>custom\<close> for \<open>refine\<close> (shown with the message that the text may not
  start or end with white space).
\<close>

datatype issue = too_small nat | too_big nat | invalid_string | custom

text \<open>
  The character class \<open>[a-zA-Z0-9...]\<close> of both regular expressions: the ASCII letters and
  digits, the fourteen accented letters (given by their code units) and the space.
\<close>

definition letter_or_digit :: "char \<Rightarrow> bool" where
  "letter_or_digit c =
     (let n = (of_char c :: nat) in
        (97 \<le> n \<and> n \<le> 122) \<or> (65 \<le> n \<and> n \<le> 90) \<or> (48 \<le> n \<and> n \<le> 57)
        \<or> n \<in> set [0xE1, 0xE9, 0xED, 0xF3, 0xFA, 0xE2, 0xEA, 0xEE, 0xF4, 0xFB,
                      0xE3, 0xF5, 0xF1, 0xE7]
        \<or> n = 32)"

text \<open>\<open>/^[...]+$/.test(s)\<close>: a non-empty string of characters of the class.\<close>

definition regex_test :: "string \<Rightarrow> bool" where
  "regex_test s = (s \<noteq> [] \<and> list_all letter_or_digit s)"

text \<open>
  \<open>String.prototype.trim\<close>: the white space and line terminators among the code units
  below 256 are tab, line feed, vertical tab, form feed, carriage return, space and the
  no-break space.
\<close>

definition white_space :: "char \<Rightarrow> bool" where
  "white_space c = ((of_char c :: nat) \<in> set [9, 10, 11, 12, 13, 32, 160])"

definition trim :: "string \<Rightarrow> string" where
  "trim s = rev (dropWhile white_space (rev (dropWhile white_space s)))"

text \<open>\<open>z.string().min(lo).max(hi).regex(...).refine((value) => value.trim() === value)\<close>\<close>

definition string_rule :: "nat \<Rightarrow> nat \<Rightarrow> string \<Rightarrow> issue list" where
  "string_rule lo hi s =
     (if length s < lo then [too_small lo] else [])
     @ (if hi < length s then [too_big hi] else [])
     @ (if regex_test s then [] else [invalid_string])
     @ (if trim s = s then [] else [custom])"

text \<open>\<open>formSchema\<close>: the issues of a form's values, each with the field it belongs to.\<close>

definition formSchema :: "SizeFormValues \<Rightarrow> (string \<times> issue) list" where
  "formSchema data =
     map (Pair ''name'') (string_rule 3 30 (SizeFormValues.name data))
     @ map (Pair ''value'') (string_rule 1 5 (SizeFormValues.value data))"

text \<open>
  \<open>form.handleSubmit(onSubmit)\<close> on a new size (\<open>initialData\<close> is \<open>null\<close>): the resolver runs
  \<open>formSchema\<close>; with issues the fields show them and \<open>onSubmit\<close> is not called; without,
  \<open>onSubmit\<close> posts the values to \<open>/api/${params.storeId}/sizes\<close>. The result is the issues
  shown or the body posted.
\<close>

definition handleSubmit :: "SizeFormValues \<Rightarrow> (string \<times> issue) list + json" where
  "handleSubmit data =
     (case formSchema data of
        [] \<Rightarrow> Inr (JObject [(''name'', JString (SizeFormValues.name data)),
                          (''value'', JString (SizeFormValues.value data))])
      | e # es \<Rightarrow> Inl (e # es))"

text \<open>
  The rule set in the words of the specification, to compare \<open>formSchema\<close> with: a name
  of 3 to 30 characters from the allowed alphabet with no leading or trailing white space,
  a value of 1 to 5 characters from the allowed alphabet.
\<close>

definition name_well_formed :: "string \<Rightarrow> bool" where
  "name_well_formed s =
     (3 \<le> length s \<and> length s \<le> 30 \<and> list_all letter_or_digit s
      \<and> \<not> white_space (hd s) \<and> \<not> white_space (last s))"

definition value_well_formed :: "string \<Rightarrow> bool" where
  "value_well_formed s = (1 \<le> length s \<and> length s \<le> 5 \<and> list_all letter_or_digit s)"

section \<open>Operations whose handlers are not among the sources\<close>

text \<open>
  Modelled from the spec: the failures of the taxonomy of section 7, which the operations
  below return; their handlers are missing from the sources.
\<close>

datatype failure = Unauthenticated | Forbidden | BadRequest | NotFound | Conflict

text \<open>
  Modelled from the spec: the Ownership Guard of section 4.1, which the handlers outside
  the sizes route would call. \<open>userId\<close> non-empty, else \<open>Unauthenticated\<close>; \<open>storeId\<close>
  non-empty, else \<open>BadRequest\<close>; the Store row matching both \<open>id = storeId\<close> and \<open>userId\<close>,
  else \<open>Forbidden\<close>. No side effects.
\<close>

definition authorize :: "database \<Rightarrow> string option \<Rightarrow> string \<Rightarrow> failure + Store" where
  "authorize db user sid =
     (case user of
        None \<Rightarrow> Inl Unauthenticated
      | Some uid \<Rightarrow>
          if uid = [] then Inl Unauthenticated
          else if sid = [] then Inl BadRequest
          else (case store_findFirst db sid uid of
                  None \<Rightarrow> Inl Forbidden
                | Some s \<Rightarrow> Inr s))"

text \<open>
  Modelled from the spec: \<open>Delete(userId, storeId, entityId)\<close> of section 4.2 for the
  Billboard entity; the handler of \<open>DELETE /api/{storeId}/billboards/{id}\<close> is missing from
  the sources. Ownership check, then the delete of the row with that identifier in that
  store: \<open>NotFound\<close> when there is none, \<open>Conflict\<close> when a Category row still references
  it through \<open>billboardId\<close>; otherwise the row is removed and returned.
\<close>

definition billboard_Delete ::
  "database \<Rightarrow> string option \<Rightarrow> string \<Rightarrow> string \<Rightarrow> (failure + Billboard) \<times> database" where
  "billboard_Delete db user sid bid =
     (case authorize db user sid of
        Inl f \<Rightarrow> (Inl f, db)
      | Inr s \<Rightarrow>
          (case find (\<lambda>b. Billboard.id' b = bid \<and> Billboard.storeId b = sid) (billboards db) of
             None \<Rightarrow> (Inl NotFound, db)
           | Some b \<Rightarrow>
               if bid \<in> set (map billboardId (categories db)) then (Inl Conflict, db)
               else (Inr b, db\<lparr>billboards :=
                                filter (\<lambda>b'. Billboard.id' b' \<noteq> bid) (billboards db)\<rparr>)))"

text \<open>
  Modelled from the spec: \<open>Get(storeId, entityId)\<close> of section 4.2 for the Size entity; the
  handler of \<open>GET /api/{storeId}/sizes/{id}\<close> is missing from the sources. It returns the
  single row with that identifier in that store, or fails with \<open>NotFound\<close>.
\<close>

definition size_Get :: "database \<Rightarrow> string \<Rightarrow> string \<Rightarrow> failure + Size" where
  "size_Get db sid eid =
     (case find (\<lambda>r. Size.id' r = eid \<and> Size.storeId r = sid) (sizes db) of
        None \<Rightarrow> Inl NotFound
      | Some r \<Rightarrow> Inr r)"

section \<open>A small shop, for evaluating the handlers\<close>

definition store1 :: Store where
  "store1 = \<lparr>Store.id' = ''store1'', Store.name = ''Loja'', Store.userId = ''user_a'',
             Store.createdAt = 100, Store.updatedAt = 100\<rparr>"

definition painel1 :: Billboard where
  "painel1 = \<lparr>Billboard.id' = ''bb1'', Billboard.storeId = ''store1'',
              Billboard.label = ''Saldos'', Billboard.imageUrl = ''https://img/1.png'',
              Billboard.createdAt = 200, Billboard.updatedAt = 200\<rparr>"

definition categoria1 :: Category where
  "categoria1 = \<lparr>Category.id' = ''cat1'', Category.storeId = ''store1'',
                 Category.billboardId = ''bb1'', Category.name = ''Camisas'',
                 Category.createdAt = 300, Category.updatedAt = 300\<rparr>"

definition no_stores :: database where
  "no_stores = \<lparr>stores = [], billboards = [], categories = [], sizes = []\<rparr>"

definition shop :: database where
  "shop = \<lparr>stores = [store1], billboards = [painel1], categories = [categoria1],
           sizes = []\<rparr>"

definition env1 :: prisma_env where
  "env1 = \<lparr>uuid = ''size-0001'', now = 1000\<rparr>"

definition pequeno :: json where
  "pequeno = JObject [(''name'', JString ''Pequeno''), (''value'', JString ''S'')]"

definition request_of :: "string option \<Rightarrow> json option \<Rightarrow> string \<Rightarrow> request" where
  "request_of user b sid = \<lparr>auth_userId = user, req_json = b, params_storeId = sid\<rparr>"

definition pequeno_row :: Size where
  "pequeno_row = \<lparr>id' = ''size-0001'', storeId = ''store1'', name = ''Pequeno'', value = ''S'',
                  createdAt = 1000, updatedAt = 1000\<rparr>"

definition grande_row :: Size where
  "grande_row = \<lparr>id' = ''size-0002'', storeId = ''store2'', name = ''Grande'', value = ''L'',
                 createdAt = 900, updatedAt = 950\<rparr>"

section \<open>Facts about the gateway and the handlers\<close>

lemma store_findFirst_None:
  "store_findFirst db sid uid = None \<longleftrightarrow>
     \<not> (\<exists>s \<in> set (stores db). Store.id' s = sid \<and> Store.userId s = uid)"
  by (auto simp: store_findFirst_def find_None_iff)

lemma store_findFirst_Some:
  "store_findFirst db sid uid = Some s \<Longrightarrow>
     s \<in> set (stores db) \<and> Store.id' s = sid \<and> Store.userId s = uid"
  by (auto simp: store_findFirst_def find_Some_iff)

lemma truthy_property_not_null: "truthy (property b k) \<Longrightarrow> b \<noteq> JNull"
  by (cases b) simp_all

lemma POST_reaches_ownership:
  assumes "auth_userId req = Some uid" and "uid \<noteq> []"
    and "req_json req = Some b"
    and "truthy (property b ''name'')" and "truthy (property b ''value'')"
    and "params_storeId req \<noteq> []"
  shows "POST db env req =
     (case store_findFirst db (params_storeId req) uid of
        None \<Rightarrow> (NextResponse ''Unauthorized'' 403, db)
      | Some storeByUserId \<Rightarrow>
          (case size_create db env (property b ''name'') (property b ''value'')
                  (params_storeId req) of
             Inl e \<Rightarrow> (NextResponse ''Internal error'' 500, db)
           | Inr (size', db') \<Rightarrow> (NextResponse_json (SizeJson size'), db')))"
  using assms truthy_property_not_null [of b "''name''"]
  by (simp add: POST_def Let_def)

lemma POST_forbidden:
  assumes "auth_userId req = Some uid" and "uid \<noteq> []"
    and "req_json req = Some b"
    and "truthy (property b ''name'')" and "truthy (property b ''value'')"
    and "params_storeId req \<noteq> []"
    and "store_findFirst db (params_storeId req) uid = None"
  shows "POST db env req = (NextResponse ''Unauthorized'' 403, db)"
  using POST_reaches_ownership [OF assms(1-6), of db env] assms(7) by simp

lemma NextResponse_status [simp]: "status (NextResponse t c) = c"
  by (simp add: NextResponse_def)

lemma NextResponse_json_status [simp]: "status (NextResponse_json b) = 200"
  by (simp add: NextResponse_json_def)

lemma NextResponse_content [simp]: "content (NextResponse t c) = Text t"
  by (simp add: NextResponse_def)

lemma NextResponse_json_content [simp]: "content (NextResponse_json b) = b"
  by (simp add: NextResponse_json_def)

lemma size_create_Inr:
  assumes "size_create db env na va sid = Inr (row, db')"
  shows "\<exists>n v. na = Some (JString n) \<and> va = Some (JString v)
           \<and> uuid env \<notin> set (map Size.id' (sizes db))
           \<and> row = \<lparr>id' = uuid env, storeId = sid, name = n, value = v,
                      createdAt = now env, updatedAt = now env\<rparr>
           \<and> db' = db\<lparr>sizes := sizes db @ [row]\<rparr>"
  using assms
  by (auto simp: size_create_def Let_def split: option.splits json.splits if_splits)

lemma size_create_strings:
  assumes "uuid env \<notin> set (map Size.id' (sizes db))"
  shows "size_create db env (Some (JString n)) (Some (JString v)) sid =
           Inr (\<lparr>id' = uuid env, storeId = sid, name = n, value = v,
                   createdAt = now env, updatedAt = now env\<rparr>,
                db\<lparr>sizes := sizes db @ [\<lparr>id' = uuid env, storeId = sid, name = n, value = v,
                   createdAt = now env, updatedAt = now env\<rparr>]\<rparr>)"
  using assms by (simp add: size_create_def Let_def)

lemma POST_not_json: "req_json req = None \<Longrightarrow> POST db env req = (NextResponse ''Internal error'' 500, db)"
  by (simp add: POST_def)

lemma POST_null: "req_json req = Some JNull \<Longrightarrow> POST db env req = (NextResponse ''Internal error'' 500, db)"
  by (simp add: POST_def)

lemma POST_unauthenticated:
  assumes "req_json req = Some b" and "b \<noteq> JNull"
    and "auth_userId req = None \<or> auth_userId req = Some []"
  shows "POST db env req = (NextResponse ''Unauthenticated'' 401, db)"
  using assms by (auto simp: POST_def Let_def)

lemma POST_name_required:
  assumes "req_json req = Some b" and "b \<noteq> JNull"
    and "auth_userId req = Some uid" and "uid \<noteq> []"
    and "\<not> truthy (property b ''name'')"
  shows "POST db env req = (NextResponse ''name is required!'' 400, db)"
  using assms by (simp add: POST_def Let_def)

lemma POST_value_required:
  assumes "req_json req = Some b" and "b \<noteq> JNull"
    and "auth_userId req = Some uid" and "uid \<noteq> []"
    and "truthy (property b ''name'')" and "\<not> truthy (property b ''value'')"
  shows "POST db env req = (NextResponse ''value is required!'' 400, db)"
  using assms by (simp add: POST_def Let_def)

lemma POST_storeId_required:
  assumes "req_json req = Some b" and "b \<noteq> JNull"
    and "auth_userId req = Some uid" and "uid \<noteq> []"
    and "truthy (property b ''name'')" and "truthy (property b ''value'')"
    and "params_storeId req = []"
  shows "POST db env req = (NextResponse ''storeId is required!'' 400, db)"
  using assms by (simp add: POST_def Let_def)

lemma POST_rejected:
  assumes "req_json req = Some b"
    and "auth_userId req = Some uid" and "uid \<noteq> []"
    and "truthy (property b ''name'')" and "truthy (property b ''value'')"
    and "params_storeId req \<noteq> []"
    and "store_findFirst db (params_storeId req) uid = Some s"
    and "size_create db env (property b ''name'') (property b ''value'') (params_storeId req)
           = Inl e"
  shows "POST db env req = (NextResponse ''Internal error'' 500, db)"
  using POST_reaches_ownership [OF assms(2,3,1,4,5,6), of db env] assms(7,8) by simp

lemma POST_created:
  assumes "req_json req = Some b"
    and "auth_userId req = Some uid" and "uid \<noteq> []"
    and "truthy (property b ''name'')" and "truthy (property b ''value'')"
    and "params_storeId req \<noteq> []"
    and "store_findFirst db (params_storeId req) uid = Some s"
    and "size_create db env (property b ''name'') (property b ''value'') (params_storeId req)
           = Inr (row, db')"
  shows "POST db env req = (NextResponse_json (SizeJson row), db')"
  using POST_reaches_ownership [OF assms(2,3,1,4,5,6), of db env] assms(7,8) by simp

lemma POST_cases [case_names not_json null_body unauthenticated name_required value_required
    storeId_required forbidden rejected created]:
  obtains
    "req_json req = None"
    "POST db env req = (NextResponse ''Internal error'' 500, db)"
  | "req_json req = Some JNull"
    "POST db env req = (NextResponse ''Internal error'' 500, db)"
  | b where "req_json req = Some b" "b \<noteq> JNull"
    "auth_userId req = None \<or> auth_userId req = Some []"
    "POST db env req = (NextResponse ''Unauthenticated'' 401, db)"
  | b uid where "req_json req = Some b" "b \<noteq> JNull" "auth_userId req = Some uid" "uid \<noteq> []"
    "\<not> truthy (property b ''name'')"
    "POST db env req = (NextResponse ''name is required!'' 400, db)"
  | b uid where "req_json req = Some b" "b \<noteq> JNull" "auth_userId req = Some uid" "uid \<noteq> []"
    "truthy (property b ''name'')" "\<not> truthy (property b ''value'')"
    "POST db env req = (NextResponse ''value is required!'' 400, db)"
  | b uid where "req_json req = Some b" "b \<noteq> JNull" "auth_userId req = Some uid" "uid \<noteq> []"
    "truthy (property b ''name'')" "truthy (property b ''value'')" "params_storeId req = []"
    "POST db env req = (NextResponse ''storeId is required!'' 400, db)"
  | b uid where "req_json req = Some b" "b \<noteq> JNull" "auth_userId req = Some uid" "uid \<noteq> []"
    "truthy (property b ''name'')" "truthy (property b ''value'')" "params_storeId req \<noteq> []"
    "store_findFirst db (params_storeId req) uid = None"
    "POST db env req = (NextResponse ''Unauthorized'' 403, db)"
  | b uid s e where "req_json req = Some b" "b \<noteq> JNull" "auth_userId req = Some uid"
    "uid \<noteq> []"
    "truthy (property b ''name'')" "truthy (property b ''value'')" "params_storeId req \<noteq> []"
    "store_findFirst db (params_storeId req) uid = Some s"
    "size_create db env (property b ''name'') (property b ''value'') (params_storeId req)
       = Inl e"
    "POST db env req = (NextResponse ''Internal error'' 500, db)"
  | b uid s row db' where "req_json req = Some b" "b \<noteq> JNull" "auth_userId req = Some uid"
    "uid \<noteq> []"
    "truthy (property b ''name'')" "truthy (property b ''value'')" "params_storeId req \<noteq> []"
    "store_findFirst db (params_storeId req) uid = Some s"
    "size_create db env (property b ''name'') (property b ''value'') (params_storeId req)
       = Inr (row, db')"
    "POST db env req = (NextResponse_json (SizeJson row), db')"
proof (cases "req_json req")
  case None
  then show ?thesis using that(1) POST_not_json by blast
next
  case (Some b)
  note body = this
  show ?thesis
  proof (cases "b = JNull")
    case True
    with body show ?thesis using that(2) POST_null by blast
  next
    case False
    note not_null = this
    show ?thesis
    proof (cases "auth_userId req = None \<or> auth_userId req = Some []")
      case True
      then show ?thesis using that(3) [OF body not_null] POST_unauthenticated [OF body not_null]
        by blast
    next
      case False
      then obtain uid where user: "auth_userId req = Some uid" "uid \<noteq> []"
        by (cases "auth_userId req") auto
      show ?thesis
      proof (cases "truthy (property b ''name'')")
        case False
        then show ?thesis
          using that(4) [OF body not_null user] POST_name_required [OF body not_null user]
          by blast
      next
        case True
        note name_ok = this
        show ?thesis
        proof (cases "truthy (property b ''value'')")
          case False
          then show ?thesis
            using that(5) [OF body not_null user name_ok]
              POST_value_required [OF body not_null user name_ok] by blast
        next
          case True
          note value_ok = this
          show ?thesis
          proof (cases "params_storeId req = []")
            case True
            then show ?thesis
              using that(6) [OF body not_null user name_ok value_ok]
                POST_storeId_required [OF body not_null user name_ok value_ok] by blast
          next
            case False
            note sid_ok = this
            show ?thesis
            proof (cases "store_findFirst db (params_storeId req) uid")
              case None
              then show ?thesis
                using that(7) [OF body not_null user name_ok value_ok sid_ok]
                  POST_forbidden [OF user body name_ok value_ok sid_ok] by blast
            next
              case (Some s)
              note owned = this
              show ?thesis
              proof (cases "size_create db env (property b ''name'') (property b ''value'')
                              (params_storeId req)")
                case (Inl e)
                then show ?thesis
                  using that(8) [OF body not_null user name_ok value_ok sid_ok owned]
                    POST_rejected [OF body user name_ok value_ok sid_ok owned] by blast
              next
                case (Inr p)
                then obtain row db' where
                  "size_create db env (property b ''name'') (property b ''value'')
                     (params_storeId req) = Inr (row, db')"
                  by (cases p) auto
                then show ?thesis
                  using that(9) [OF body not_null user name_ok value_ok sid_ok owned]
                    POST_created [OF body user name_ok value_ok sid_ok owned] by blast
              qed
            qed
          qed
        qed
      qed
    qed
  qed
qed

lemma POST_ok:
  assumes "status (fst (POST db env req)) = 200"
  obtains uid b n v s row where
    "auth_userId req = Some uid" "uid \<noteq> []" "req_json req = Some b"
    "property b ''name'' = Some (JString n)" "n \<noteq> []"
    "property b ''value'' = Some (JString v)" "v \<noteq> []"
    "params_storeId req \<noteq> []"
    "store_findFirst db (params_storeId req) uid = Some s"
    "uuid env \<notin> set (map Size.id' (sizes db))"
    "row = \<lparr>id' = uuid env, storeId = params_storeId req, name = n, value = v,
              createdAt = now env, updatedAt = now env\<rparr>"
    "POST db env req = (NextResponse_json (SizeJson row), db\<lparr>sizes := sizes db @ [row]\<rparr>)"
proof (cases rule: POST_cases [where req = req and db = db and env = env])
  case (created b uid s row db')
  from size_create_Inr [OF created(9)] obtain n v where
    nv: "property b ''name'' = Some (JString n)" "property b ''value'' = Some (JString v)"
      "uuid env \<notin> set (map Size.id' (sizes db))"
      "row = \<lparr>id' = uuid env, storeId = params_storeId req, name = n, value = v,
                createdAt = now env, updatedAt = now env\<rparr>"
      "db' = db\<lparr>sizes := sizes db @ [row]\<rparr>"
    by blast
  from created(5,6) nv(1,2) have "n \<noteq> []" "v \<noteq> []" by simp_all
  with created nv show ?thesis using that by blast
qed (use assms in simp_all)

lemma POST_changes:
  assumes "snd (POST db env req) \<noteq> db"
  shows "status (fst (POST db env req)) = 200"
  by (cases rule: POST_cases [where req = req and db = db and env = env])
    (use assms in simp_all)

lemma find_appended_row:
  assumes "k \<notin> set (map Size.id' xs)" and "Size.id' row = k" and "Size.storeId row = sid"
  shows "find (\<lambda>r. Size.id' r = k \<and> Size.storeId r = sid) (xs @ [row]) = Some row"
  using assms by (induction xs) auto

lemma dropWhile_same_length:
  assumes "length (dropWhile P xs) = length xs"
  shows "dropWhile P xs = xs"
proof -
  have "length (takeWhile P xs) + length (dropWhile P xs) = length xs"
    by (simp flip: length_append)
  with assms have "takeWhile P xs = []" by simp
  then show ?thesis
    using takeWhile_dropWhile_id [of P xs] by simp
qed

lemma trim_fixed_iff:
  "trim s = s \<longleftrightarrow> s = [] \<or> (\<not> white_space (hd s) \<and> \<not> white_space (last s))"
proof (cases "s = []")
  case True
  then show ?thesis by (simp add: trim_def)
next
  case False
  show ?thesis
  proof
    assume fixed: "trim s = s"
    let ?d = "dropWhile white_space s"
    have "length s = length (dropWhile white_space (rev ?d))"
      using fixed by (metis length_rev trim_def)
    also have "\<dots> \<le> length ?d"
      by (metis length_dropWhile_le length_rev)
    finally have "length ?d = length s"
      using length_dropWhile_le [of white_space s] by simp
    then have front: "?d = s" by (rule dropWhile_same_length)
    with fixed have "dropWhile white_space (rev s) = rev s"
      by (metis rev_rev_ident trim_def)
    with front False show "s = [] \<or> (\<not> white_space (hd s) \<and> \<not> white_space (last s))"
      by (simp add: dropWhile_eq_self_iff hd_rev)
  next
    assume "s = [] \<or> (\<not> white_space (hd s) \<and> \<not> white_space (last s))"
    with False have "\<not> white_space (hd s)" "\<not> white_space (last s)" by simp_all
    then have "dropWhile white_space s = s" "dropWhile white_space (rev s) = rev s"
      by (simp_all add: dropWhile_eq_self_iff hd_rev)
    then show "trim s = s" by (simp add: trim_def)
  qed
qed

lemma string_rule_Nil_iff:
  "string_rule lo hi s = [] \<longleftrightarrow>
     lo \<le> length s \<and> length s \<le> hi \<and> regex_test s \<and> trim s = s"
  by (auto simp: string_rule_def)

lemma name_rule_iff: "string_rule 3 30 s = [] \<longleftrightarrow> name_well_formed s"
proof (cases "s = []")
  case True
  then show ?thesis by (simp add: string_rule_Nil_iff name_well_formed_def)
next
  case False
  then show ?thesis
    by (simp add: string_rule_Nil_iff name_well_formed_def regex_test_def trim_fixed_iff)
qed

lemma value_rule_imp: "string_rule 1 5 s = [] \<Longrightarrow> value_well_formed s"
  by (simp add: string_rule_Nil_iff value_well_formed_def regex_test_def)

lemma formSchema_Nil_iff:
  "formSchema data = [] \<longleftrightarrow>
     string_rule 3 30 (SizeFormValues.name data) = []
     \<and> string_rule 1 5 (SizeFormValues.value data) = []"
  by (simp add: formSchema_def)

lemma formSchema_fields:
  "e \<in> set (formSchema data) \<Longrightarrow> fst e = ''name'' \<or> fst e = ''value''"
  by (auto simp: formSchema_def)

lemma formSchema_name_issue:
  assumes "string_rule 3 30 (SizeFormValues.name data) \<noteq> []"
  shows "\<exists>i. (''name'', i) \<in> set (formSchema data)"
proof -
  from assms obtain i rest where "string_rule 3 30 (SizeFormValues.name data) = i # rest"
    by (cases "string_rule 3 30 (SizeFormValues.name data)") auto
  then have "(''name'', i) \<in> set (formSchema data)"
    by (simp add: formSchema_def)
  then show ?thesis ..
qed

lemma formSchema_value_issue:
  assumes "string_rule 1 5 (SizeFormValues.value data) \<noteq> []"
  shows "\<exists>i. (''value'', i) \<in> set (formSchema data)"
proof -
  from assms obtain i rest where "string_rule 1 5 (SizeFormValues.value data) = i # rest"
    by (cases "string_rule 1 5 (SizeFormValues.value data)") auto
  then have "(''value'', i) \<in> set (formSchema data)"
    by (simp add: formSchema_def)
  then show ?thesis ..
qed

lemma handleSubmit_issues:
  "formSchema data \<noteq> [] \<Longrightarrow> handleSubmit data = Inl (formSchema data)"
  by (simp add: handleSubmit_def split: list.splits)

lemma handleSubmit_posts:
  "formSchema data = [] \<Longrightarrow>
     handleSubmit data = Inr (JObject [(''name'', JString (SizeFormValues.name data)),
                                       (''value'', JString (SizeFormValues.value data))])"
  by (simp add: handleSubmit_def)

section \<open>The claims\<close>

text \<open>
  C1. An authenticated Create request with non-empty name, value and storeId, for which no
  Store row matches both \<open>id = storeId\<close> and \<open>userId\<close>, gets the response \<open>403\<close>. A database
  \<open>db1\<close> without the store and a database \<open>db2\<close> where the store belongs to another user
  give the same response, and both are left as they were.
\<close>

theorem sizes_POST_forbidden_hides_existence:
  assumes "auth_userId req = Some uid" and "uid \<noteq> []"
    and "req_json req = Some b"
    and "truthy (property b ''name'')" and "truthy (property b ''value'')"
    and "params_storeId req \<noteq> []"
    and absent: "params_storeId req \<notin> set (map Store.id' (stores db1))"
    and exists: "s \<in> set (stores db2)" "Store.id' s = params_storeId req"
    and foreign: "\<forall>s' \<in> set (stores db2).
                    Store.id' s' = params_storeId req \<longrightarrow> Store.userId s' \<noteq> uid"
  shows "POST db1 e1 req = (NextResponse ''Unauthorized'' 403, db1)
       \<and> POST db2 e2 req = (NextResponse ''Unauthorized'' 403, db2)
       \<and> fst (POST db1 e1 req) = fst (POST db2 e2 req)"
proof -
  have "store_findFirst db1 (params_storeId req) uid = None"
    unfolding store_findFirst_None using absent by (metis image_eqI set_map)
  then have 1: "POST db1 e1 req = (NextResponse ''Unauthorized'' 403, db1)"
    by (rule POST_forbidden [OF assms(1-6)])
  have "store_findFirst db2 (params_storeId req) uid = None"
    using foreign by (auto simp: store_findFirst_None)
  then have 2: "POST db2 e2 req = (NextResponse ''Unauthorized'' 403, db2)"
    by (rule POST_forbidden [OF assms(1-6)])
  from 1 2 show ?thesis by simp
qed

theorem sizes_POST_forbidden_hides_existence_witness:
  "POST no_stores env1 (request_of (Some ''user_b'') (Some pequeno) ''store1'')
     = (NextResponse ''Unauthorized'' 403, no_stores)
   \<and> POST shop env1 (request_of (Some ''user_b'') (Some pequeno) ''store1'')
     = (NextResponse ''Unauthorized'' 403, shop)
   \<and> fst (POST no_stores env1 (request_of (Some ''user_b'') (Some pequeno) ''store1''))
     = fst (POST shop env1 (request_of (Some ''user_b'') (Some pequeno) ''store1''))"
  using sizes_POST_forbidden_hides_existence
    [where req = "request_of (Some ''user_b'') (Some pequeno) ''store1''"
       and uid = "''user_b''" and b = pequeno and ?db1.0 = no_stores and s = store1
       and ?db2.0 = shop and ?e1.0 = env1 and ?e2.0 = env1]
  by (simp add: request_of_def pequeno_def no_stores_def shop_def store1_def)

text \<open>
  C2. For the owner of the store, deleting a Billboard of the store while a Category row
  references it through \<open>billboardId\<close> fails with \<open>Conflict\<close> and removes nothing; once
  the referencing Category rows are removed, the same delete succeeds, returns the row and
  leaves no Billboard with that identifier.
\<close>

theorem billboard_Delete_blocked_while_referenced:
  assumes "uid \<noteq> []" and "sid \<noteq> []"
    and "s \<in> set (stores db)" and "Store.id' s = sid" and "Store.userId s = uid"
    and "b \<in> set (billboards db)" and "Billboard.id' b = bid" and "Billboard.storeId b = sid"
    and "c \<in> set (categories db)" and "billboardId c = bid"
  shows "billboard_Delete db (Some uid) sid bid = (Inl Conflict, db)
       \<and> (\<exists>b'. billboard_Delete
                  (db\<lparr>categories := filter (\<lambda>c'. billboardId c' \<noteq> bid) (categories db)\<rparr>)
                  (Some uid) sid bid
               = (Inr b',
                  db\<lparr>categories := filter (\<lambda>c'. billboardId c' \<noteq> bid) (categories db),
                     billboards := filter (\<lambda>x. Billboard.id' x \<noteq> bid) (billboards db)\<rparr>)
             \<and> b' \<in> set (billboards db) \<and> Billboard.id' b' = bid
             \<and> bid \<notin> set (map Billboard.id'
                  (filter (\<lambda>x. Billboard.id' x \<noteq> bid) (billboards db))))"
proof -
  let ?db2 = "db\<lparr>categories := filter (\<lambda>c'. billboardId c' \<noteq> bid) (categories db)\<rparr>"
  from assms(3-5) obtain s' where owned: "store_findFirst db sid uid = Some s'"
    using store_findFirst_None [of db sid uid] by fastforce
  then have owned2: "store_findFirst ?db2 sid uid = Some s'"
    by (simp add: store_findFirst_def)
  have auth: "authorize db (Some uid) sid = Inr s'" "authorize ?db2 (Some uid) sid = Inr s'"
    using assms(1,2) owned owned2 by (simp_all add: authorize_def)
  from assms(6-8) obtain b' where
    found: "find (\<lambda>x. Billboard.id' x = bid \<and> Billboard.storeId x = sid) (billboards db)
              = Some b'"
    by (cases "find (\<lambda>x. Billboard.id' x = bid \<and> Billboard.storeId x = sid) (billboards db)")
      (auto simp: find_None_iff)
  then have b': "b' \<in> set (billboards db)" "Billboard.id' b' = bid"
    by (auto simp: find_Some_iff)
  have referenced: "bid \<in> set (map billboardId (categories db))"
    using assms(9,10) by force
  have "billboard_Delete db (Some uid) sid bid = (Inl Conflict, db)"
    using auth(1) found referenced by (simp add: billboard_Delete_def)
  moreover have "billboard_Delete ?db2 (Some uid) sid bid
      = (Inr b', db\<lparr>categories := filter (\<lambda>c'. billboardId c' \<noteq> bid) (categories db),
                    billboards := filter (\<lambda>x. Billboard.id' x \<noteq> bid) (billboards db)\<rparr>)"
    using auth(2) found by (auto simp: billboard_Delete_def)
  moreover have "bid \<notin> set (map Billboard.id'
                    (filter (\<lambda>x. Billboard.id' x \<noteq> bid) (billboards db)))"
    by auto
  ultimately show ?thesis using b' by blast
qed

theorem billboard_Delete_blocked_while_referenced_witness:
  "billboard_Delete shop (Some ''user_a'') ''store1'' ''bb1'' = (Inl Conflict, shop)
   \<and> billboard_Delete (shop\<lparr>categories := []\<rparr>) (Some ''user_a'') ''store1'' ''bb1''
       = (Inr painel1, shop\<lparr>categories := [], billboards := []\<rparr>)"
  using billboard_Delete_blocked_while_referenced
    [where uid = "''user_a''" and sid = "''store1''" and s = store1 and db = shop
       and b = painel1 and bid = "''bb1''" and c = categoria1]
  by (simp add: shop_def store1_def painel1_def categoria1_def)

text \<open>
  C3. As stated, for every Create request with a required field missing, the claim fails:
  the authentication check comes first, and an unauthenticated request without a name gets
  \<open>401\<close>, not \<open>400\<close>.
\<close>

theorem sizes_POST_missing_field_counterexample:
  "property (JObject [(''value'', JString ''S'')]) ''name'' = None
   \<and> POST shop env1 (request_of None (Some (JObject [(''value'', JString ''S'')])) ''store1'')
       = (NextResponse ''Unauthenticated'' 401, shop)
   \<and> status (fst (POST shop env1
         (request_of None (Some (JObject [(''value'', JString ''S'')])) ''store1''))) \<noteq> 400"
  by (simp add: POST_def request_of_def)

text \<open>
  C3, amended. For a Create request whose body parses to a JSON value other than \<open>null\<close> and
  in which name or value is missing (\<open>undefined\<close>, or falsy in another way), no Size row is
  created and the database is unchanged. If the caller is authenticated the response is
  \<open>400\<close>, with the message \<open>name is required!\<close> when the name is missing and
  \<open>value is required!\<close> when the name is there and the value is missing; if the caller is
  not authenticated the response is \<open>401\<close>.
\<close>

theorem sizes_POST_missing_field:
  assumes "req_json req = Some b" and "b \<noteq> JNull"
    and "\<not> truthy (property b ''name'') \<or> \<not> truthy (property b ''value'')"
  shows "snd (POST db env req) = db
       \<and> (\<forall>uid. auth_userId req = Some uid \<and> uid \<noteq> [] \<longrightarrow>
            fst (POST db env req) =
              (if \<not> truthy (property b ''name'') then NextResponse ''name is required!'' 400
               else NextResponse ''value is required!'' 400))
       \<and> (auth_userId req = None \<or> auth_userId req = Some [] \<longrightarrow>
            fst (POST db env req) = NextResponse ''Unauthenticated'' 401)"
proof (intro conjI allI impI)
  show "snd (POST db env req) = db"
    by (cases rule: POST_cases [where req = req and db = db and env = env])
      (use assms in auto)
next
  fix uid
  assume "auth_userId req = Some uid \<and> uid \<noteq> []"
  then have user: "auth_userId req = Some uid" "uid \<noteq> []" by simp_all
  show "fst (POST db env req) =
          (if \<not> truthy (property b ''name'') then NextResponse ''name is required!'' 400
           else NextResponse ''value is required!'' 400)"
  proof (cases "truthy (property b ''name'')")
    case False
    then show ?thesis
      using POST_name_required [OF assms(1,2) user, of db env] by simp
  next
    case True
    with assms(3) have "\<not> truthy (property b ''value'')" by simp
    with True show ?thesis
      using POST_value_required [OF assms(1,2) user, of db env] by simp
  qed
next
  assume "auth_userId req = None \<or> auth_userId req = Some []"
  then show "fst (POST db env req) = NextResponse ''Unauthenticated'' 401"
    using POST_unauthenticated [OF assms(1,2), of db env] by simp
qed

theorem sizes_POST_missing_field_witness:
  "snd (POST shop env1
          (request_of (Some ''user_a'') (Some (JObject [(''name'', JString ''Pequeno'')]))
             ''store1'')) = shop
   \<and> fst (POST shop env1
          (request_of (Some ''user_a'') (Some (JObject [(''name'', JString ''Pequeno'')]))
             ''store1'')) = NextResponse ''value is required!'' 400"
  using sizes_POST_missing_field
    [where req = "request_of (Some ''user_a'')
                    (Some (JObject [(''name'', JString ''Pequeno'')])) ''store1''"
       and b = "JObject [(''name'', JString ''Pequeno'')]" and db = shop and env = env1]
  by (simp add: request_of_def)

text \<open>
  C4. As stated, for every Create request with a store identifier that the authenticated
  user does not own, the claim fails: the field checks come before the ownership lookup,
  and such a request without a name gets \<open>400\<close>, not \<open>403\<close>.
\<close>

theorem sizes_POST_not_owned_counterexample:
  "store_findFirst shop ''store1'' ''user_b'' = None
   \<and> POST shop env1 (request_of (Some ''user_b'') (Some (JObject [])) ''store1'')
       = (NextResponse ''name is required!'' 400, shop)
   \<and> status (fst (POST shop env1
         (request_of (Some ''user_b'') (Some (JObject [])) ''store1''))) \<noteq> 403"
  by (simp add: POST_def request_of_def store_findFirst_def shop_def store1_def)

text \<open>
  C4, amended. For every Create request of an authenticated user with a non-empty store
  identifier that matches no store of that user, the database is unchanged, and the
  response is \<open>403\<close> exactly when the body holds a name and a value (both truthy). Otherwise
  it is the response of the step that fails before the ownership lookup: \<open>500\<close> when the
  body is not JSON or is \<open>null\<close>, \<open>400\<close> with \<open>name is required!\<close> when the name is missing,
  and \<open>400\<close> with \<open>value is required!\<close> when the name is there and the value is missing.
\<close>

theorem sizes_POST_not_owned:
  assumes "auth_userId req = Some uid" and "uid \<noteq> []"
    and "params_storeId req \<noteq> []"
    and "\<not> (\<exists>s \<in> set (stores db). Store.id' s = params_storeId req \<and> Store.userId s = uid)"
  shows "snd (POST db env req) = db
       \<and> (\<forall>b. req_json req = Some b \<and> truthy (property b ''name'')
                \<and> truthy (property b ''value'') \<longrightarrow>
              fst (POST db env req) = NextResponse ''Unauthorized'' 403)
       \<and> status (fst (POST db env req)) \<in> {403, 400, 500}
       \<and> (req_json req = None \<or> req_json req = Some JNull \<longrightarrow>
              fst (POST db env req) = NextResponse ''Internal error'' 500)
       \<and> (\<forall>b. req_json req = Some b \<and> b \<noteq> JNull \<and> \<not> truthy (property b ''name'') \<longrightarrow>
              fst (POST db env req) = NextResponse ''name is required!'' 400)
       \<and> (\<forall>b. req_json req = Some b \<and> b \<noteq> JNull \<and> truthy (property b ''name'')
                \<and> \<not> truthy (property b ''value'') \<longrightarrow>
              fst (POST db env req) = NextResponse ''value is required!'' 400)
       \<and> (status (fst (POST db env req)) = 403 \<longleftrightarrow>
              (\<exists>b. req_json req = Some b \<and> truthy (property b ''name'')
                 \<and> truthy (property b ''value'')))"
proof -
  have none: "store_findFirst db (params_storeId req) uid = None"
    using assms(4) by (simp add: store_findFirst_None)
  have 1: "snd (POST db env req) = db"
    by (cases rule: POST_cases [where req = req and db = db and env = env])
      (use assms(1) none in auto)
  have 2: "fst (POST db env req) = NextResponse ''Unauthorized'' 403"
    if "req_json req = Some b" "truthy (property b ''name'')" "truthy (property b ''value'')"
    for b
    using POST_forbidden [OF assms(1,2) that assms(3) none, of env] by simp
  have 3: "status (fst (POST db env req)) \<in> {403, 400, 500}"
    by (cases rule: POST_cases [where req = req and db = db and env = env])
      (use assms(1,2) none in auto)
  have 4: "fst (POST db env req) = NextResponse ''Internal error'' 500"
    if "req_json req = None \<or> req_json req = Some JNull"
    using that POST_not_json [of req db env] POST_null [of req db env] by auto
  have 5: "fst (POST db env req) = NextResponse ''name is required!'' 400"
    if "req_json req = Some b" "b \<noteq> JNull" "\<not> truthy (property b ''name'')" for b
    using POST_name_required [OF that(1,2) assms(1,2) that(3), of db env] by simp
  have 6: "fst (POST db env req) = NextResponse ''value is required!'' 400"
    if "req_json req = Some b" "b \<noteq> JNull" "truthy (property b ''name'')"
      "\<not> truthy (property b ''value'')" for b
    using POST_value_required [OF that(1,2) assms(1,2) that(3,4), of db env] by simp
  have 7: "status (fst (POST db env req)) = 403 \<longleftrightarrow>
             (\<exists>b. req_json req = Some b \<and> truthy (property b ''name'')
                \<and> truthy (property b ''value''))"
  proof
    assume forbidden: "status (fst (POST db env req)) = 403"
    show "\<exists>b. req_json req = Some b \<and> truthy (property b ''name'')
            \<and> truthy (property b ''value'')"
    proof (cases "req_json req")
      case None
      with 4 forbidden show ?thesis by simp
    next
      case (Some b)
      show ?thesis
      proof (cases "b = JNull")
        case True
        with Some 4 forbidden show ?thesis by simp
      next
        case False
        have name_ok: "truthy (property b ''name'')"
        proof (rule ccontr)
          assume "\<not> truthy (property b ''name'')"
          then have "status (fst (POST db env req)) = 400"
            using 5 [OF Some False] by simp
          with forbidden show False by simp
        qed
        have "truthy (property b ''value'')"
        proof (rule ccontr)
          assume "\<not> truthy (property b ''value'')"
          then have "status (fst (POST db env req)) = 400"
            using 6 [OF Some False name_ok] by simp
          with forbidden show False by simp
        qed
        with Some name_ok show ?thesis by simp
      qed
    qed
  next
    assume "\<exists>b. req_json req = Some b \<and> truthy (property b ''name'')
              \<and> truthy (property b ''value'')"
    then show "status (fst (POST db env req)) = 403" using 2 by auto
  qed
  from 1 2 3 4 5 6 7 show ?thesis by blast
qed

theorem sizes_POST_not_owned_witness:
  "snd (POST shop env1 (request_of (Some ''user_b'') (Some pequeno) ''store1'')) = shop
   \<and> fst (POST shop env1 (request_of (Some ''user_b'') (Some pequeno) ''store1''))
       = NextResponse ''Unauthorized'' 403
   \<and> fst (POST shop env1 (request_of (Some ''user_b'') (Some (JObject [])) ''store1''))
       = NextResponse ''name is required!'' 400
   \<and> fst (POST shop env1
         (request_of (Some ''user_b'') (Some (JObject [(''name'', JString ''Pequeno'')]))
            ''store1''))
       = NextResponse ''value is required!'' 400
   \<and> fst (POST shop env1 (request_of (Some ''user_b'') (Some JNull) ''store1''))
       = NextResponse ''Internal error'' 500"
proof -
  have owner: "\<not> (\<exists>s \<in> set (stores shop). Store.id' s = ''store1'' \<and> Store.userId s = ''user_b'')"
    by (simp add: shop_def store1_def)
  have "snd (POST shop env1 (request_of (Some ''user_b'') (Some pequeno) ''store1'')) = shop
      \<and> fst (POST shop env1 (request_of (Some ''user_b'') (Some pequeno) ''store1''))
          = NextResponse ''Unauthorized'' 403"
    using owner sizes_POST_not_owned
      [where req = "request_of (Some ''user_b'') (Some pequeno) ''store1''"
         and uid = "''user_b''" and db = shop and env = env1]
    by (simp add: request_of_def pequeno_def)
  moreover have "fst (POST shop env1 (request_of (Some ''user_b'') (Some (JObject [])) ''store1''))
      = NextResponse ''name is required!'' 400"
    using owner sizes_POST_not_owned
      [where req = "request_of (Some ''user_b'') (Some (JObject [])) ''store1''"
         and uid = "''user_b''" and db = shop and env = env1]
    by (simp add: request_of_def)
  moreover have "fst (POST shop env1
        (request_of (Some ''user_b'') (Some (JObject [(''name'', JString ''Pequeno'')]))
           ''store1''))
      = NextResponse ''value is required!'' 400"
    using owner sizes_POST_not_owned
      [where req = "request_of (Some ''user_b'')
                      (Some (JObject [(''name'', JString ''Pequeno'')])) ''store1''"
         and uid = "''user_b''" and db = shop and env = env1]
    by (simp add: request_of_def)
  moreover have "fst (POST shop env1 (request_of (Some ''user_b'') (Some JNull) ''store1''))
      = NextResponse ''Internal error'' 500"
    using owner sizes_POST_not_owned
      [where req = "request_of (Some ''user_b'') (Some JNull) ''store1''"
         and uid = "''user_b''" and db = shop and env = env1]
    by (simp add: request_of_def)
  ultimately show ?thesis by simp
qed

text \<open>
  C5. As stated, the claim fails: the body is read and destructured before the first check,
  so an unauthenticated request whose body is the JSON value \<open>null\<close> gets
  \<open>500 Internal error\<close>, although authentication is the first check that fails.
\<close>

theorem sizes_POST_check_order_counterexample:
  "auth_userId (request_of None (Some JNull) ''store1'') = None
   \<and> POST shop env1 (request_of None (Some JNull) ''store1'')
       = (NextResponse ''Internal error'' 500, shop)
   \<and> status (fst (POST shop env1 (request_of None (Some JNull) ''store1''))) \<noteq> 401"
  by (simp add: POST_def request_of_def)

text \<open>
  C5, amended. For a request whose body parses to a JSON value other than \<open>null\<close>, the
  checks run in this order and the first one that fails alone determines the response,
  with nothing persisted: authentication (\<open>401\<close>), name present (\<open>400\<close>), value present
  (\<open>400\<close>), storeId present (\<open>400\<close>), store owned by the user (\<open>403\<close>). When all pass, name
  and value are strings and the generated identifier is new to the table, one row is
  appended with the generated identifier, the store identifier of the path and the
  current time as \<open>createdAt\<close> and \<open>updatedAt\<close>, and is returned as the body of a \<open>200\<close>
  response. The database changes only when all five checks pass. A body that is not JSON
  or is \<open>null\<close> gets \<open>500\<close> before any check.
\<close>

theorem sizes_POST_check_order:
  "(req_json req = None \<or> req_json req = Some JNull \<longrightarrow>
      POST db env req = (NextResponse ''Internal error'' 500, db))
   \<and> (\<forall>b. req_json req = Some b \<and> b \<noteq> JNull \<longrightarrow>
        (auth_userId req = None \<or> auth_userId req = Some [] \<longrightarrow>
                 POST db env req = (NextResponse ''Unauthenticated'' 401, db))
            \<and> (\<forall>uid. auth_userId req = Some uid \<and> uid \<noteq> [] \<longrightarrow>
                 (\<not> truthy (property b ''name'') \<longrightarrow>
                    POST db env req = (NextResponse ''name is required!'' 400, db))
               \<and> (truthy (property b ''name'') \<and> \<not> truthy (property b ''value'') \<longrightarrow>
                    POST db env req = (NextResponse ''value is required!'' 400, db))
               \<and> (truthy (property b ''name'') \<and> truthy (property b ''value'')
                    \<and> params_storeId req = [] \<longrightarrow>
                    POST db env req = (NextResponse ''storeId is required!'' 400, db))
               \<and> (truthy (property b ''name'') \<and> truthy (property b ''value'')
                    \<and> params_storeId req \<noteq> []
                    \<and> \<not> (\<exists>s \<in> set (stores db).
                            Store.id' s = params_storeId req \<and> Store.userId s = uid) \<longrightarrow>
                    POST db env req = (NextResponse ''Unauthorized'' 403, db))
               \<and> (\<forall>n v. property b ''name'' = Some (JString n) \<and> n \<noteq> []
                    \<and> property b ''value'' = Some (JString v) \<and> v \<noteq> []
                    \<and> params_storeId req \<noteq> []
                    \<and> (\<exists>s \<in> set (stores db).
                          Store.id' s = params_storeId req \<and> Store.userId s = uid)
                    \<and> uuid env \<notin> set (map Size.id' (sizes db)) \<longrightarrow>
                    POST db env req =
                      (NextResponse_json (SizeJson
                         \<lparr>id' = uuid env, storeId = params_storeId req, name = n, value = v,
                            createdAt = now env, updatedAt = now env\<rparr>),
                       db\<lparr>sizes := sizes db @
                         [\<lparr>id' = uuid env, storeId = params_storeId req, name = n, value = v,
                            createdAt = now env, updatedAt = now env\<rparr>]\<rparr>)))
            \<and> (snd (POST db env req) \<noteq> db \<longrightarrow>
                 (\<exists>uid. auth_userId req = Some uid \<and> uid \<noteq> []
                    \<and> truthy (property b ''name'') \<and> truthy (property b ''value'')
                    \<and> params_storeId req \<noteq> []
                    \<and> (\<exists>s \<in> set (stores db).
                          Store.id' s = params_storeId req \<and> Store.userId s = uid))))"
  (is "?unreadable \<and> (\<forall>b. ?readable b \<longrightarrow> ?checks b)")
proof (rule conjI)
  show ?unreadable
    using POST_not_json [of req db env] POST_null [of req db env] by blast
next
  show "\<forall>b. ?readable b \<longrightarrow> ?checks b"
  proof (intro allI impI)
    fix b
    assume "?readable b"
    then have body: "req_json req = Some b" "b \<noteq> JNull" by simp_all
    show "?checks b"
    proof (intro conjI allI impI; (elim conjE)?)
      assume "auth_userId req = None \<or> auth_userId req = Some []"
      then show "POST db env req = (NextResponse ''Unauthenticated'' 401, db)"
        by (rule POST_unauthenticated [OF body])
    next
      fix uid
      assume user: "auth_userId req = Some uid" "uid \<noteq> []"
      {
        assume "\<not> truthy (property b ''name'')"
        then show "POST db env req = (NextResponse ''name is required!'' 400, db)"
          by (rule POST_name_required [OF body user])
      next
        assume "truthy (property b ''name'')" "\<not> truthy (property b ''value'')"
        then show "POST db env req = (NextResponse ''value is required!'' 400, db)"
          by (rule POST_value_required [OF body user])
      next
        assume "truthy (property b ''name'')" "truthy (property b ''value'')"
          "params_storeId req = []"
        then show "POST db env req = (NextResponse ''storeId is required!'' 400, db)"
          by (rule POST_storeId_required [OF body user])
      next
        assume fields: "truthy (property b ''name'')" "truthy (property b ''value'')"
          "params_storeId req \<noteq> []"
          and "\<not> (\<exists>s \<in> set (stores db).
                    Store.id' s = params_storeId req \<and> Store.userId s = uid)"
        then have "store_findFirst db (params_storeId req) uid = None"
          by (simp add: store_findFirst_None)
        then show "POST db env req = (NextResponse ''Unauthorized'' 403, db)"
          by (rule POST_forbidden [OF user body(1) fields])
      next
        fix n v
        assume nv: "property b ''name'' = Some (JString n)" "n \<noteq> []"
          "property b ''value'' = Some (JString v)" "v \<noteq> []"
          and sid: "params_storeId req \<noteq> []"
          and owned: "\<exists>s \<in> set (stores db).
                        Store.id' s = params_storeId req \<and> Store.userId s = uid"
          and fresh: "uuid env \<notin> set (map Size.id' (sizes db))"
        from owned obtain s where "store_findFirst db (params_storeId req) uid = Some s"
          using store_findFirst_None [of db "params_storeId req" uid] by fastforce
        moreover have "truthy (property b ''name'')" "truthy (property b ''value'')"
          using nv by simp_all
        ultimately show "POST db env req =
            (NextResponse_json (SizeJson
               \<lparr>id' = uuid env, storeId = params_storeId req, name = n, value = v,
                  createdAt = now env, updatedAt = now env\<rparr>),
             db\<lparr>sizes := sizes db @
               [\<lparr>id' = uuid env, storeId = params_storeId req, name = n, value = v,
                  createdAt = now env, updatedAt = now env\<rparr>]\<rparr>)"
          using POST_created [OF body(1) user _ _ sid, of db s env]
            size_create_strings [OF fresh, of n v "params_storeId req"] nv
          by simp
      }
    next
      assume "snd (POST db env req) \<noteq> db"
      then have "status (fst (POST db env req)) = 200" by (rule POST_changes)
      then show "\<exists>uid. auth_userId req = Some uid \<and> uid \<noteq> []
                   \<and> truthy (property b ''name'') \<and> truthy (property b ''value'')
                   \<and> params_storeId req \<noteq> []
                   \<and> (\<exists>s \<in> set (stores db).
                         Store.id' s = params_storeId req \<and> Store.userId s = uid)"
      proof (rule POST_ok)
        fix uid b' n v s row
        assume "auth_userId req = Some uid" "uid \<noteq> []" "req_json req = Some b'"
          "property b' ''name'' = Some (JString n)" "n \<noteq> []"
          "property b' ''value'' = Some (JString v)" "v \<noteq> []"
          "params_storeId req \<noteq> []"
          "store_findFirst db (params_storeId req) uid = Some s"
        moreover from this body(1) have "b' = b" by simp
        ultimately show ?thesis
          using store_findFirst_Some [of db "params_storeId req" uid s] by auto
      qed
    qed
  qed
qed

theorem sizes_POST_check_order_witness:
  "POST shop env1 (request_of (Some ''user_a'') (Some pequeno) ''store1'')
     = (NextResponse_json (SizeJson pequeno_row), shop\<lparr>sizes := [pequeno_row]\<rparr>)
   \<and> POST shop env1 (request_of None (Some pequeno) ''store1'')
     = (NextResponse ''Unauthenticated'' 401, shop)"
  using sizes_POST_check_order
    [where req = "request_of (Some ''user_a'') (Some pequeno) ''store1''"
       and db = shop and env = env1]
    sizes_POST_check_order
    [where req = "request_of None (Some pequeno) ''store1''"
       and db = shop and env = env1]
  by (simp add: request_of_def shop_def store1_def pequeno_def env1_def pequeno_row_def)

text \<open>
  C6. A List request with an empty \<open>storeId\<close> gets \<open>400\<close>. Otherwise the response is \<open>200\<close>
  and its body holds exactly the Size rows whose \<open>storeId\<close> is the given one: all of them
  and no others. The handler consults neither the caller's identity nor the store table,
  so the response is the same for every caller and every ownership of the store.
\<close>

theorem sizes_GET_lists_rows_of_store:
  "(params_storeId req = [] \<longrightarrow> GET db req = NextResponse ''storeId is required!'' 400)
   \<and> (params_storeId req \<noteq> [] \<longrightarrow>
        (\<exists>rows. GET db req = NextResponse_json (SizeListJson rows)
           \<and> status (GET db req) = 200
           \<and> rows = filter (\<lambda>r. storeId r = params_storeId req) (sizes db)
           \<and> set rows = {r \<in> set (sizes db). storeId r = params_storeId req}
           \<and> (\<forall>r. count_list rows r =
                 (if storeId r = params_storeId req then count_list (sizes db) r else 0))))
   \<and> GET db (req\<lparr>auth_userId := user\<rparr>) = GET db req
   \<and> GET (db\<lparr>stores := ss\<rparr>) req = GET db req"
proof -
  have count: "count_list (filter P xs) r = (if P r then count_list xs r else 0)"
    for P and xs :: "Size list" and r
    by (induction xs) auto
  show ?thesis
    by (auto simp: GET_def size_findMany_def count)
qed

theorem sizes_GET_lists_rows_of_store_witness:
  "GET (shop\<lparr>sizes := [pequeno_row, grande_row]\<rparr>) (request_of None None ''store1'')
     = NextResponse_json (SizeListJson [pequeno_row])
   \<and> GET shop (request_of (Some ''user_b'') None []) = NextResponse ''storeId is required!'' 400"
  using sizes_GET_lists_rows_of_store
    [where req = "request_of None None ''store1''"
       and db = "shop\<lparr>sizes := [pequeno_row, grande_row]\<rparr>"]
    sizes_GET_lists_rows_of_store
    [where req = "request_of (Some ''user_b'') None []" and db = shop]
  by (simp add: request_of_def pequeno_row_def grande_row_def)

text \<open>
  C7. Round trip: after a successful Create (response \<open>200\<close>) the body of the response is
  the created row, the name and value of the request are strings, and a Get of the
  returned identifier in the same store yields that row, whose name, value and \<open>storeId\<close>
  are those of the request and whose \<open>createdAt\<close> is at most its \<open>updatedAt\<close>. The List
  handler of the sources returns the row as well, after the rows the store had before.
\<close>

theorem sizes_create_then_get_round_trip:
  assumes "POST db env req = (resp, db')" and "status resp = 200"
  shows "\<exists>row b n v. content resp = SizeJson row \<and> req_json req = Some b
           \<and> property b ''name'' = Some (JString n)
           \<and> property b ''value'' = Some (JString v)
           \<and> size_Get db' (params_storeId req) (id' row) = Inr row
           \<and> name row = n \<and> value row = v \<and> storeId row = params_storeId req
           \<and> createdAt row \<le> updatedAt row
           \<and> GET db' req = NextResponse_json (SizeListJson
                 (size_findMany db (params_storeId req) @ [row]))"
proof -
  from assms have "status (fst (POST db env req)) = 200" by simp
  then show ?thesis
  proof (rule POST_ok)
    fix uid b n v s row
    assume body: "req_json req = Some b"
      "property b ''name'' = Some (JString n)" "property b ''value'' = Some (JString v)"
      and sid: "params_storeId req \<noteq> []"
      and fresh: "uuid env \<notin> set (map Size.id' (sizes db))"
      and row: "row = \<lparr>id' = uuid env, storeId = params_storeId req, name = n, value = v,
                        createdAt = now env, updatedAt = now env\<rparr>"
      and post: "POST db env req =
                   (NextResponse_json (SizeJson row), db\<lparr>sizes := sizes db @ [row]\<rparr>)"
    from post assms(1) have resp: "content resp = SizeJson row"
      and db': "db' = db\<lparr>sizes := sizes db @ [row]\<rparr>"
      by auto
    have "find (\<lambda>r. Size.id' r = uuid env \<and> Size.storeId r = params_storeId req)
            (sizes db @ [row]) = Some row"
      using fresh row by (intro find_appended_row) simp_all
    then have get: "size_Get db' (params_storeId req) (id' row) = Inr row"
      using row db' by (simp add: size_Get_def)
    have "GET db' req = NextResponse_json (SizeListJson
            (size_findMany db (params_storeId req) @ [row]))"
      using sid row db' by (simp add: GET_def size_findMany_def)
    with get resp body row show ?thesis by auto
  qed
qed

theorem sizes_create_then_get_round_trip_witness:
  "\<exists>row b n v. content (NextResponse_json (SizeJson pequeno_row)) = SizeJson row
     \<and> req_json (request_of (Some ''user_a'') (Some pequeno) ''store1'') = Some b
     \<and> property b ''name'' = Some (JString n)
     \<and> property b ''value'' = Some (JString v)
     \<and> size_Get (shop\<lparr>sizes := [pequeno_row]\<rparr>)
          (params_storeId (request_of (Some ''user_a'') (Some pequeno) ''store1'')) (id' row)
        = Inr row
     \<and> name row = n \<and> value row = v
     \<and> storeId row = params_storeId (request_of (Some ''user_a'') (Some pequeno) ''store1'')
     \<and> createdAt row \<le> updatedAt row
     \<and> GET (shop\<lparr>sizes := [pequeno_row]\<rparr>)
          (request_of (Some ''user_a'') (Some pequeno) ''store1'')
        = NextResponse_json (SizeListJson
            (size_findMany shop
               (params_storeId (request_of (Some ''user_a'') (Some pequeno) ''store1''))
             @ [row]))"
proof -
  have post: "POST shop env1 (request_of (Some ''user_a'') (Some pequeno) ''store1'')
                = (NextResponse_json (SizeJson pequeno_row), shop\<lparr>sizes := [pequeno_row]\<rparr>)"
    by (simp add: POST_def request_of_def shop_def store1_def pequeno_def env1_def
        pequeno_row_def store_findFirst_def size_create_def Let_def)
  have ok: "status (NextResponse_json (SizeJson pequeno_row)) = 200" by simp
  show ?thesis by (rule sizes_create_then_get_round_trip [OF post ok])
qed

text \<open>
  C8. As stated, the claim fails: the handler tests name and value for presence only and
  never applies the rule set. A request of the store's owner with the name \<open>ab\<close> (two
  characters) and the value \<open>XXXXXL\<close> (six characters) is persisted and answered with \<open>200\<close>.
\<close>

theorem sizes_POST_ill_formed_counterexample:
  "\<not> name_well_formed ''ab'' \<and> \<not> value_well_formed ''XXXXXL''
   \<and> POST shop env1
         (request_of (Some ''user_a'')
            (Some (JObject [(''name'', JString ''ab''), (''value'', JString ''XXXXXL'')]))
            ''store1'')
       = (NextResponse_json (SizeJson
            \<lparr>id' = ''size-0001'', storeId = ''store1'', name = ''ab'', value = ''XXXXXL'',
               createdAt = 1000, updatedAt = 1000\<rparr>),
          shop\<lparr>sizes :=
            [\<lparr>id' = ''size-0001'', storeId = ''store1'', name = ''ab'', value = ''XXXXXL'',
                createdAt = 1000, updatedAt = 1000\<rparr>]\<rparr>)"
  by (simp add: name_well_formed_def value_well_formed_def POST_def request_of_def shop_def
      store1_def env1_def store_findFirst_def size_create_def Let_def)

text \<open>
  C8, amended. The rule set is enforced by the form alone. When the name or the value
  entered is not well-formed, submitting the form shows issues, each attached to the field
  \<open>name\<close> or \<open>value\<close> and at least one attached to each field that is not well-formed, and
  nothing is posted. The handler checks presence only: a request of an authenticated owner
  of the store whose name and value are non-empty strings, well-formed or not, is
  persisted as it is (the generated identifier being new) and answered with \<open>200\<close>.
\<close>

theorem sizes_rules_enforced_by_form_only:
  "(\<not> name_well_formed (SizeFormValues.name data)
      \<or> \<not> value_well_formed (SizeFormValues.value data) \<longrightarrow>
      (\<exists>errs. handleSubmit data = Inl errs \<and> errs \<noteq> []
         \<and> (\<forall>e \<in> set errs. fst e = ''name'' \<or> fst e = ''value'')
         \<and> (\<not> name_well_formed (SizeFormValues.name data) \<longrightarrow> ''name'' \<in> fst ` set errs)
         \<and> (\<not> value_well_formed (SizeFormValues.value data) \<longrightarrow>
               ''value'' \<in> fst ` set errs)))
   \<and> (auth_userId req = Some uid \<and> uid \<noteq> []
        \<and> req_json req = Some b
        \<and> property b ''name'' = Some (JString n) \<and> n \<noteq> []
        \<and> property b ''value'' = Some (JString v) \<and> v \<noteq> []
        \<and> params_storeId req \<noteq> []
        \<and> (\<exists>s \<in> set (stores db). Store.id' s = params_storeId req \<and> Store.userId s = uid)
        \<and> uuid env \<notin> set (map Size.id' (sizes db)) \<longrightarrow>
        POST db env req =
          (NextResponse_json (SizeJson
             \<lparr>id' = uuid env, storeId = params_storeId req, name = n, value = v,
                createdAt = now env, updatedAt = now env\<rparr>),
           db\<lparr>sizes := sizes db @
             [\<lparr>id' = uuid env, storeId = params_storeId req, name = n, value = v,
                createdAt = now env, updatedAt = now env\<rparr>]\<rparr>))"
proof (rule conjI)
  let ?n = "SizeFormValues.name data" and ?v = "SizeFormValues.value data"
  show "\<not> name_well_formed ?n \<or> \<not> value_well_formed ?v \<longrightarrow>
      (\<exists>errs. handleSubmit data = Inl errs \<and> errs \<noteq> []
         \<and> (\<forall>e \<in> set errs. fst e = ''name'' \<or> fst e = ''value'')
         \<and> (\<not> name_well_formed ?n \<longrightarrow> ''name'' \<in> fst ` set errs)
         \<and> (\<not> value_well_formed ?v \<longrightarrow> ''value'' \<in> fst ` set errs))"
  proof
    assume ill: "\<not> name_well_formed ?n \<or> \<not> value_well_formed ?v"
    then have "string_rule 3 30 ?n \<noteq> [] \<or> string_rule 1 5 ?v \<noteq> []"
      using name_rule_iff [of ?n] value_rule_imp [of ?v] by blast
    then have issues: "formSchema data \<noteq> []"
      by (simp add: formSchema_Nil_iff)
    then have shown: "handleSubmit data = Inl (formSchema data)"
      by (rule handleSubmit_issues)
    have fields: "\<forall>e \<in> set (formSchema data). fst e = ''name'' \<or> fst e = ''value''"
      using formSchema_fields by blast
    have at_name: "''name'' \<in> fst ` set (formSchema data)" if "\<not> name_well_formed ?n"
    proof -
      from that have "string_rule 3 30 ?n \<noteq> []" by (simp add: name_rule_iff)
      then obtain i where "(''name'', i) \<in> set (formSchema data)"
        using formSchema_name_issue by blast
      then show ?thesis by force
    qed
    have at_value: "''value'' \<in> fst ` set (formSchema data)" if "\<not> value_well_formed ?v"
    proof -
      from that have "string_rule 1 5 ?v \<noteq> []" using value_rule_imp by blast
      then obtain i where "(''value'', i) \<in> set (formSchema data)"
        using formSchema_value_issue by blast
      then show ?thesis by force
    qed
    from shown issues fields at_name at_value
    show "\<exists>errs. handleSubmit data = Inl errs \<and> errs \<noteq> []
         \<and> (\<forall>e \<in> set errs. fst e = ''name'' \<or> fst e = ''value'')
         \<and> (\<not> name_well_formed ?n \<longrightarrow> ''name'' \<in> fst ` set errs)
         \<and> (\<not> value_well_formed ?v \<longrightarrow> ''value'' \<in> fst ` set errs)"
      by blast
  qed
next
  show "auth_userId req = Some uid \<and> uid \<noteq> []
        \<and> req_json req = Some b
        \<and> property b ''name'' = Some (JString n) \<and> n \<noteq> []
        \<and> property b ''value'' = Some (JString v) \<and> v \<noteq> []
        \<and> params_storeId req \<noteq> []
        \<and> (\<exists>s \<in> set (stores db). Store.id' s = params_storeId req \<and> Store.userId s = uid)
        \<and> uuid env \<notin> set (map Size.id' (sizes db)) \<longrightarrow>
        POST db env req =
          (NextResponse_json (SizeJson
             \<lparr>id' = uuid env, storeId = params_storeId req, name = n, value = v,
                createdAt = now env, updatedAt = now env\<rparr>),
           db\<lparr>sizes := sizes db @
             [\<lparr>id' = uuid env, storeId = params_storeId req, name = n, value = v,
                createdAt = now env, updatedAt = now env\<rparr>]\<rparr>)"
  proof (intro impI, elim conjE)
    assume user: "auth_userId req = Some uid" "uid \<noteq> []"
      and body: "req_json req = Some b"
      and nv: "property b ''name'' = Some (JString n)" "n \<noteq> []"
        "property b ''value'' = Some (JString v)" "v \<noteq> []"
      and sid: "params_storeId req \<noteq> []"
      and owned: "\<exists>s \<in> set (stores db).
                    Store.id' s = params_storeId req \<and> Store.userId s = uid"
      and fresh: "uuid env \<notin> set (map Size.id' (sizes db))"
    from owned obtain s where "store_findFirst db (params_storeId req) uid = Some s"
      using store_findFirst_None [of db "params_storeId req" uid] by fastforce
    moreover have "truthy (property b ''name'')" "truthy (property b ''value'')"
      using nv by simp_all
    ultimately show "POST db env req =
        (NextResponse_json (SizeJson
           \<lparr>id' = uuid env, storeId = params_storeId req, name = n, value = v,
              createdAt = now env, updatedAt = now env\<rparr>),
         db\<lparr>sizes := sizes db @
           [\<lparr>id' = uuid env, storeId = params_storeId req, name = n, value = v,
              createdAt = now env, updatedAt = now env\<rparr>]\<rparr>)"
      using POST_created [OF body user _ _ sid, of db s env]
        size_create_strings [OF fresh, of n v "params_storeId req"] nv
      by simp
  qed
qed

theorem sizes_rules_enforced_by_form_only_witness:
  "handleSubmit \<lparr>SizeFormValues.name = ''ab'', SizeFormValues.value = ''XXXXXL''\<rparr>
     = Inl [(''name'', too_small 3), (''value'', too_big 5)]
   \<and> (\<exists>errs. handleSubmit \<lparr>SizeFormValues.name = ''ab'', SizeFormValues.value = ''XXXXXL''\<rparr>
                = Inl errs
        \<and> ''name'' \<in> fst ` set errs \<and> ''value'' \<in> fst ` set errs)
   \<and> POST shop env1
         (request_of (Some ''user_a'')
            (Some (JObject [(''name'', JString ''ab''), (''value'', JString ''XXXXXL'')]))
            ''store1'')
       = (NextResponse_json (SizeJson
            \<lparr>id' = ''size-0001'', storeId = ''store1'', name = ''ab'', value = ''XXXXXL'',
               createdAt = 1000, updatedAt = 1000\<rparr>),
          shop\<lparr>sizes :=
            [\<lparr>id' = ''size-0001'', storeId = ''store1'', name = ''ab'', value = ''XXXXXL'',
                createdAt = 1000, updatedAt = 1000\<rparr>]\<rparr>)"
proof -
  let ?data = "\<lparr>SizeFormValues.name = ''ab'', SizeFormValues.value = ''XXXXXL''\<rparr>"
  have shown: "handleSubmit ?data = Inl [(''name'', too_small 3), (''value'', too_big 5)]"
    by (simp add: handleSubmit_def formSchema_def string_rule_def regex_test_def
        letter_or_digit_def trim_def white_space_def)
  have ill: "\<not> name_well_formed (SizeFormValues.name ?data)"
    "\<not> value_well_formed (SizeFormValues.value ?data)"
    by (simp_all add: name_well_formed_def value_well_formed_def)
  note inst = sizes_rules_enforced_by_form_only
    [where data = ?data
       and req = "request_of (Some ''user_a'')
            (Some (JObject [(''name'', JString ''ab''), (''value'', JString ''XXXXXL'')]))
            ''store1''"
       and uid = "''user_a''"
       and b = "JObject [(''name'', JString ''ab''), (''value'', JString ''XXXXXL'')]"
       and n = "''ab''" and v = "''XXXXXL''" and db = shop and env = env1]
  from inst ill have form: "\<exists>errs. handleSubmit ?data = Inl errs
        \<and> ''name'' \<in> fst ` set errs \<and> ''value'' \<in> fst ` set errs"
    by blast
  from inst have post: "POST shop env1
         (request_of (Some ''user_a'')
            (Some (JObject [(''name'', JString ''ab''), (''value'', JString ''XXXXXL'')]))
            ''store1'')
       = (NextResponse_json (SizeJson
            \<lparr>id' = ''size-0001'', storeId = ''store1'', name = ''ab'', value = ''XXXXXL'',
               createdAt = 1000, updatedAt = 1000\<rparr>),
          shop\<lparr>sizes :=
            [\<lparr>id' = ''size-0001'', storeId = ''store1'', name = ''ab'', value = ''XXXXXL'',
                createdAt = 1000, updatedAt = 1000\<rparr>]\<rparr>)"
    by (simp add: request_of_def shop_def store1_def env1_def)
  from shown form post show ?thesis by blast
qed

text \<open>
  C9. Whatever the request, the Create handler leaves the database as it was or appends
  exactly one Size row, and then the row's \<open>storeId\<close> is the identifier of a Store row that
  exists in the database the request ran on and belongs to the requesting user.
\<close>

theorem sizes_POST_inserts_only_into_owned_store:
  assumes "POST db env req = (resp, db')"
  shows "db' = db
       \<or> (\<exists>row s uid. db' = db\<lparr>sizes := sizes db @ [row]\<rparr>
             \<and> auth_userId req = Some uid \<and> uid \<noteq> []
             \<and> s \<in> set (stores db) \<and> Store.id' s = storeId row \<and> Store.userId s = uid)"
proof (cases "db' = db")
  case True
  then show ?thesis by simp
next
  case False
  with assms have "snd (POST db env req) \<noteq> db" by simp
  then have "status (fst (POST db env req)) = 200" by (rule POST_changes)
  then show ?thesis
  proof (rule POST_ok)
    fix uid b n v s row
    assume user: "auth_userId req = Some uid" "uid \<noteq> []"
      and owned: "store_findFirst db (params_storeId req) uid = Some s"
      and row: "row = \<lparr>id' = uuid env, storeId = params_storeId req, name = n, value = v,
                        createdAt = now env, updatedAt = now env\<rparr>"
      and post: "POST db env req =
                   (NextResponse_json (SizeJson row), db\<lparr>sizes := sizes db @ [row]\<rparr>)"
    from post assms have "db' = db\<lparr>sizes := sizes db @ [row]\<rparr>" by simp
    moreover from row have "storeId row = params_storeId req" by simp
    ultimately have "db' = db\<lparr>sizes := sizes db @ [row]\<rparr>
        \<and> auth_userId req = Some uid \<and> uid \<noteq> []
        \<and> s \<in> set (stores db) \<and> Store.id' s = storeId row \<and> Store.userId s = uid"
      using user store_findFirst_Some [OF owned] by simp
    then show ?thesis by blast
  qed
qed

theorem sizes_POST_inserts_only_into_owned_store_witness:
  "shop\<lparr>sizes := [pequeno_row]\<rparr> \<noteq> shop
   \<and> (\<exists>row s uid. shop\<lparr>sizes := [pequeno_row]\<rparr> = shop\<lparr>sizes := sizes shop @ [row]\<rparr>
         \<and> auth_userId (request_of (Some ''user_a'') (Some pequeno) ''store1'') = Some uid
         \<and> uid \<noteq> [] \<and> s \<in> set (stores shop)
         \<and> Store.id' s = storeId row \<and> Store.userId s = uid)"
proof -
  have post: "POST shop env1 (request_of (Some ''user_a'') (Some pequeno) ''store1'')
                = (NextResponse_json (SizeJson pequeno_row), shop\<lparr>sizes := [pequeno_row]\<rparr>)"
    by (simp add: POST_def request_of_def shop_def store1_def pequeno_def env1_def
        pequeno_row_def store_findFirst_def size_create_def Let_def)
  have changed: "shop\<lparr>sizes := [pequeno_row]\<rparr> \<noteq> shop"
    by (simp add: shop_def database.equality)
  from sizes_POST_inserts_only_into_owned_store [OF post] changed show ?thesis by blast
qed

text \<open>
  C10. The Create handler reads the properties \<open>name\<close> and \<open>value\<close> of the body and no
  other: two requests whose bodies are objects with the same \<open>name\<close> and the same \<open>value\<close>
  get the same response and leave the same database, whatever else the bodies hold
  (\<open>storeId\<close>, \<open>id\<close>, \<open>createdAt\<close>, \<open>updatedAt\<close>). The \<open>storeId\<close> of the created row is the
  path parameter, its identifier and timestamps are those the schema's defaults supply.
\<close>

theorem sizes_POST_reads_name_and_value_only:
  assumes "map_of kvs1 ''name'' = map_of kvs2 ''name''"
    and "map_of kvs1 ''value'' = map_of kvs2 ''value''"
  shows "POST db env (req\<lparr>req_json := Some (JObject kvs1)\<rparr>)
           = POST db env (req\<lparr>req_json := Some (JObject kvs2)\<rparr>)
       \<and> (\<forall>row. content (fst (POST db env (req\<lparr>req_json := Some (JObject kvs1)\<rparr>)))
                   = SizeJson row \<longrightarrow>
              storeId row = params_storeId req \<and> id' row = uuid env
            \<and> createdAt row = now env \<and> updatedAt row = now env
            \<and> sizes (snd (POST db env (req\<lparr>req_json := Some (JObject kvs1)\<rparr>)))
                = sizes db @ [row])"
proof -
  let ?r = "req\<lparr>req_json := Some (JObject kvs1)\<rparr>"
  have same: "POST db env ?r = POST db env (req\<lparr>req_json := Some (JObject kvs2)\<rparr>)"
    using assms by (simp add: POST_def Let_def split: option.splits)
  have created: "storeId row = params_storeId req \<and> id' row = uuid env
           \<and> createdAt row = now env \<and> updatedAt row = now env
           \<and> sizes (snd (POST db env ?r)) = sizes db @ [row]"
    if body: "content (fst (POST db env ?r)) = SizeJson row" for row
  proof -
    have "status (fst (POST db env ?r)) = 200"
      by (cases rule: POST_cases [where req = ?r and db = db and env = env])
        (use body in auto)
    then show ?thesis
    proof (rule POST_ok)
      fix uid b n v s row'
      assume "row' = \<lparr>id' = uuid env, storeId = params_storeId ?r, name = n, value = v,
                        createdAt = now env, updatedAt = now env\<rparr>"
        and "POST db env ?r =
               (NextResponse_json (SizeJson row'), db\<lparr>sizes := sizes db @ [row']\<rparr>)"
      with body show ?thesis by auto
    qed
  qed
  from same created show ?thesis by blast
qed

theorem sizes_POST_reads_name_and_value_only_witness:
  "POST shop env1 (request_of (Some ''user_a'')
       (Some (JObject [(''storeId'', JString ''store2''), (''name'', JString ''Pequeno''),
                       (''id'', JString ''chosen''), (''value'', JString ''S''),
                       (''createdAt'', JNumber 1)])) ''store1'')
     = POST shop env1 (request_of (Some ''user_a'') (Some pequeno) ''store1'')
   \<and> content (fst (POST shop env1 (request_of (Some ''user_a'') (Some pequeno) ''store1'')))
       = SizeJson pequeno_row
   \<and> storeId pequeno_row = ''store1'' \<and> id' pequeno_row = uuid env1
   \<and> sizes (snd (POST shop env1 (request_of (Some ''user_a'') (Some pequeno) ''store1'')))
       = sizes shop @ [pequeno_row]"
proof -
  have post: "POST shop env1 (request_of (Some ''user_a'') (Some pequeno) ''store1'')
                = (NextResponse_json (SizeJson pequeno_row), shop\<lparr>sizes := [pequeno_row]\<rparr>)"
    by (simp add: POST_def request_of_def shop_def store1_def pequeno_def env1_def
        pequeno_row_def store_findFirst_def size_create_def Let_def)
  have same: "POST shop env1 (request_of (Some ''user_a'')
          (Some (JObject [(''storeId'', JString ''store2''), (''name'', JString ''Pequeno''),
                          (''id'', JString ''chosen''), (''value'', JString ''S''),
                          (''createdAt'', JNumber 1)])) ''store1'')
      = POST shop env1 (request_of (Some ''user_a'') (Some pequeno) ''store1'')
    \<and> (content (fst (POST shop env1 (request_of (Some ''user_a'') (Some pequeno) ''store1'')))
         = SizeJson pequeno_row \<longrightarrow>
       storeId pequeno_row = ''store1'' \<and> id' pequeno_row = uuid env1
     \<and> sizes (snd (POST shop env1 (request_of (Some ''user_a'') (Some pequeno) ''store1'')))
         = sizes shop @ [pequeno_row])"
    using sizes_POST_reads_name_and_value_only
      [where ?kvs2.0 = "[(''name'', JString ''Pequeno''), (''value'', JString ''S'')]"
         and ?kvs1.0 = "[(''storeId'', JString ''store2''), (''name'', JString ''Pequeno''),
                         (''id'', JString ''chosen''), (''value'', JString ''S''),
                         (''createdAt'', JNumber 1)]"
         and db = shop and env = env1 and req = "request_of (Some ''user_a'') None ''store1''"]
    by (auto simp: request_of_def pequeno_def)
  have "content (fst (POST shop env1 (request_of (Some ''user_a'') (Some pequeno) ''store1'')))
          = SizeJson pequeno_row"
    by (simp add: post)
  with same show ?thesis by simp
qed

end
